theory Spec2Isabelle
  imports Main
begin

section \<open>The HTTP objects the middleware of kuma/core/middleware.py works on\<close>

text \<open>
  The file is Python 2 (\<^verbatim>\<open>urlparse\<close>, \<^verbatim>\<open>iteritems\<close>): a \<^verbatim>\<open>str\<close> is a byte string, and
  text is modelled by its UTF-8 bytes, so \<open>length\<close> is Python's \<^verbatim>\<open>len\<close> on the
  response body.

  Exceptions are values. \<open>KeyError\<close> is the \<^verbatim>\<open>request.META[...]\<close> subscript on a missing
  key, \<open>IndexError\<close> a list subscript out of range, and \<open>Raised\<close> an exception coming
  out of a library call made inside a \<^verbatim>\<open>try\<close> block of this file.
\<close>

datatype error = KeyError string | IndexError | Raised string

text \<open>
  A Django response. \<open>response_class\<close> is what \<^verbatim>\<open>isinstance\<close> sees; the status code
  is a field of its own, since \<^verbatim>\<open>HttpResponse(status=403)\<close> is a plain response with
  status 403. Headers are Django's \<^verbatim>\<open>_headers\<close> dictionary: the lower-cased name maps
  to the pair of the name as written and the value.
\<close>

datatype response_class =
    HttpResponse_class
  | HttpResponseRedirect_class
  | HttpResponsePermanentRedirect_class
  | HttpResponseForbidden_class
  | StreamingHttpResponse_class

record response =
  response_class :: response_class
  status_code :: int
  headers :: "string \<rightharpoonup> string \<times> string"
  content :: string
  streaming :: bool

text \<open>
  A Django request, with the attributes the middleware reads and writes. \<open>GET\<close> is
  the query dictionary as the parsed (key, value) pairs in order, a key possibly
  repeated; \<open>urlconf\<close> is \<^verbatim>\<open>getattr(request, 'urlconf', None)\<close>.
\<close>

record request =
  path :: string
  path_info :: string
  GET :: "(string \<times> string) list"
  META :: "string \<rightharpoonup> string"
  urlconf :: "string option"
  request_LANGUAGE_CODE :: "string option"

subsection \<open>Strings\<close>

definition lower_char :: "char \<Rightarrow> char" where
  "lower_char c =
     (case map_of (zip ''ABCDEFGHIJKLMNOPQRSTUVWXYZ'' ''abcdefghijklmnopqrstuvwxyz'') c of
        Some l \<Rightarrow> l
      | None \<Rightarrow> c)"

definition lower :: "string \<Rightarrow> string" where
  "lower s = map lower_char s"

text \<open>\<^verbatim>\<open>str(n)\<close> of a length: the decimal digits.\<close>

fun str :: "nat \<Rightarrow> string" where
  "str n =
     (if n < 10 then [''0123456789'' ! n]
      else str (n div 10) @ [''0123456789'' ! (n mod 10)])"

declare str.simps [simp del]

text \<open>\<^verbatim>\<open>s.endswith('/')\<close> and the slice \<^verbatim>\<open>s[:-1]\<close> (which is \<open>butlast\<close>, also on the empty string).\<close>

definition endswith_slash :: "string \<Rightarrow> bool" where
  "endswith_slash s = (case rev s of [] \<Rightarrow> False | c # _ \<Rightarrow> c = CHR ''/'')"

text \<open>\<^verbatim>\<open>s.split(sep)\<close> for a one-character separator, and \<^verbatim>\<open>s.strip()\<close> of a byte string.\<close>

fun split_str :: "char \<Rightarrow> string \<Rightarrow> string list" where
  "split_str sep [] = [[]]"
| "split_str sep (c # cs) =
     (if c = sep then [] # split_str sep cs
      else (case split_str sep cs of
              [] \<Rightarrow> [[c]]
            | x # xs \<Rightarrow> (c # x) # xs))"

definition is_space :: "char \<Rightarrow> bool" where
  "is_space c = (c \<in> set [CHR 0x20, CHR 0x09, CHR 0x0A, CHR 0x0B, CHR 0x0C, CHR 0x0D])"

definition strip :: "string \<Rightarrow> string" where
  "strip s = rev (dropWhile is_space (rev (dropWhile is_space s)))"

text \<open>
  \<^verbatim>\<open>smart_str\<close> encodes text as UTF-8 bytes; on text modelled by its UTF-8 bytes it
  returns its argument.
\<close>

definition smart_str :: "string \<Rightarrow> string" where
  "smart_str s = s"

subsection \<open>Query dictionaries\<close>

text \<open>\<^verbatim>\<open>request.META.get(key, default)\<close>.\<close>

definition META_get :: "request \<Rightarrow> string \<Rightarrow> string \<Rightarrow> string" where
  "META_get request key dflt = (case META request key of None \<Rightarrow> dflt | Some v \<Rightarrow> v)"

text \<open>
  \<^verbatim>\<open>request.GET.get(key)\<close> is the last value given for the key, \<^verbatim>\<open>None\<close> when there is
  none; \<^verbatim>\<open>request.GET.iteritems()\<close> yields each key once, with that last value.
  \<^verbatim>\<open>dict(pairs)\<close> lets a later pair win.
\<close>

definition QueryDict_get :: "(string \<times> string) list \<Rightarrow> string \<Rightarrow> string option" where
  "QueryDict_get q key =
     (case rev (filter (\<lambda>kv. fst kv = key) q) of [] \<Rightarrow> None | kv # _ \<Rightarrow> Some (snd kv))"

definition QueryDict_iteritems :: "(string \<times> string) list \<Rightarrow> (string \<times> string) list" where
  "QueryDict_iteritems q =
     concat (map (\<lambda>k. case QueryDict_get q k of None \<Rightarrow> [] | Some v \<Rightarrow> [(k, v)])
                 (remdups (map fst q)))"

definition dict :: "('k \<times> 'v) list \<Rightarrow> ('k \<rightharpoonup> 'v)" where
  "dict pairs = map_of (rev pairs)"

subsection \<open>Response headers\<close>

text \<open>\<^verbatim>\<open>response.has_header(h)\<close>, \<^verbatim>\<open>response.get(h)\<close> and \<^verbatim>\<open>response[h] = v\<close>.\<close>

definition has_header :: "response \<Rightarrow> string \<Rightarrow> bool" where
  "has_header r h = (headers r (lower h) \<noteq> None)"

definition get_header :: "response \<Rightarrow> string \<Rightarrow> string option" where
  "get_header r h = map_option snd (headers r (lower h))"

definition set_header :: "response \<Rightarrow> string \<Rightarrow> string \<Rightarrow> response" where
  "set_header r h v = r\<lparr>headers := (headers r)(lower h \<mapsto> (h, v))\<rparr>"

subsection \<open>The libraries\<close>

text \<open>
  Django, brotli and the standard library are outside the repository; the sibling
  modules \<^verbatim>\<open>.urlresolvers\<close>, \<^verbatim>\<open>.utils\<close> and \<^verbatim>\<open>.views\<close> are not part of the file. What
  the middleware calls in them is a parameter of the model.
\<close>

text \<open>
  A \<open>Prefixer\<close> of \<^verbatim>\<open>.urlresolvers\<close>: the object built from the request, with the two
  attributes the middleware reads and writes.
\<close>

record prefixer =
  prefixer_request :: request
  prefixer_locale :: string
  shortened_path :: string

record library =
  brotli_compress :: "string \<Rightarrow> string"
    \<comment> \<open>\<^verbatim>\<open>brotli.compress(content, quality=5)\<close>\<close>
  vary_value :: "string option \<Rightarrow> string list \<Rightarrow> string"
    \<comment> \<open>the value \<^verbatim>\<open>patch_vary_headers\<close> computes from the old Vary header and the new names\<close>
  resolve :: "string \<Rightarrow> string option \<Rightarrow> string option"
    \<comment> \<open>\<^verbatim>\<open>urlresolvers.resolve(path, urlconf)\<close>: the match, or \<open>None\<close> for \<^verbatim>\<open>Resolver404\<close>\<close>
  iri_to_uri :: "string \<Rightarrow> error + string"
    \<comment> \<open>\<^verbatim>\<open>django.utils.encoding.iri_to_uri\<close>, which may raise\<close>
  get_host :: "request \<Rightarrow> string"
    \<comment> \<open>\<^verbatim>\<open>request.get_host()\<close>\<close>
  get_full_path :: "request \<Rightarrow> string"
    \<comment> \<open>\<^verbatim>\<open>request.get_full_path()\<close>\<close>
  urljoin :: "string \<Rightarrow> string \<Rightarrow> string"
    \<comment> \<open>\<^verbatim>\<open>urlparse.urljoin\<close>\<close>
  urllib_quote :: "string \<Rightarrow> string"
    \<comment> \<open>\<^verbatim>\<open>urllib.quote\<close>\<close>
  super_process_response :: "request \<Rightarrow> response \<Rightarrow> response"
    \<comment> \<open>\<^verbatim>\<open>django.middleware.gzip.GZipMiddleware.process_response\<close>\<close>

record kuma =
  new_Prefixer :: "request \<Rightarrow> prefixer"
    \<comment> \<open>\<^verbatim>\<open>Prefixer(request)\<close>\<close>
  prefixer_fix :: "prefixer \<Rightarrow> string \<Rightarrow> string"
    \<comment> \<open>\<^verbatim>\<open>prefixer.fix(path)\<close>\<close>
  split_path :: "string \<Rightarrow> string \<times> string"
  is_untrusted :: "request \<Rightarrow> bool"
  urlparams :: "string \<Rightarrow> (string \<rightharpoonup> string) \<Rightarrow> string"
    \<comment> \<open>\<^verbatim>\<open>urlparams(url, **query)\<close>, the keyword arguments as a dictionary\<close>
  handler403 :: "request \<Rightarrow> response"

record settings =
  LANGUAGES :: "(string \<times> string) list"
  LANGUAGE_CODE :: string
  ENABLE_RESTRICTIONS_BY_HOST :: bool
  LEGACY_HOSTS :: "string list"
  SITE_URL :: string

text \<open>
  What is process-wide in \<^verbatim>\<open>process_request\<close> of \<^verbatim>\<open>LocaleURLMiddleware\<close>: the prefixer
  that \<^verbatim>\<open>set_url_prefixer\<close> stores and the language that \<^verbatim>\<open>translation.activate\<close>
  selects.
\<close>

record thread =
  url_prefixer :: "prefixer option"
  active_translation :: "string option"

text \<open>
  The redirects of \<^verbatim>\<open>django.http\<close>: status 302 and 301, the target in the Location
  header. (Django also passes the target through its own \<^verbatim>\<open>iri_to_uri\<close> when it stores
  the header and adds a default Content-Type; neither is the middleware's doing and
  the model keeps the target as the middleware passed it.)
\<close>

definition HttpResponseRedirect :: "string \<Rightarrow> response" where
  "HttpResponseRedirect redirect_to =
     \<lparr>response_class = HttpResponseRedirect_class, status_code = 302,
      headers = [''location'' \<mapsto> (''Location'', redirect_to)],
      content = [], streaming = False\<rparr>"

definition HttpResponsePermanentRedirect :: "string \<Rightarrow> response" where
  "HttpResponsePermanentRedirect redirect_to =
     \<lparr>response_class = HttpResponsePermanentRedirect_class, status_code = 301,
      headers = [''location'' \<mapsto> (''Location'', redirect_to)],
      content = [], streaming = False\<rparr>"

text \<open>
  \<^verbatim>\<open>patch_vary_headers(response, newheaders)\<close> of \<^verbatim>\<open>django.utils.cache\<close> reads the Vary
  header and assigns \<^verbatim>\<open>response['Vary']\<close>; it touches nothing else of the response.
\<close>

definition patch_vary_headers :: "library \<Rightarrow> response \<Rightarrow> string list \<Rightarrow> response" where
  "patch_vary_headers lib r newheaders =
     set_header r ''Vary'' (vary_value lib (get_header r ''Vary'') newheaders)"

section \<open>BrotliMiddleware\<close>

definition MIN_LEN_RESPONSE_TO_PROCESS :: nat where
  "MIN_LEN_RESPONSE_TO_PROCESS = 200"

text \<open>
  \<^verbatim>\<open>RE_ACCEPT_ENCODING_BROTLI = re.compile(r'\bbr\b')\<close>. A word character of a Python 2
  pattern without flags is one of \<^verbatim>\<open>[a-zA-Z0-9_]\<close>. Both \<^verbatim>\<open>b\<close> and \<^verbatim>\<open>r\<close> are word
  characters, so the boundary before \<^verbatim>\<open>b\<close> holds when no word character precedes it,
  and the one after \<^verbatim>\<open>r\<close> when none follows.
\<close>

definition is_word_char :: "char \<Rightarrow> bool" where
  "is_word_char c =
     (c \<in> set ''abcdefghijklmnopqrstuvwxyzABCDEFGHIJKLMNOPQRSTUVWXYZ0123456789_'')"

text \<open>
  \<open>search_from prev s\<close>: the pattern matches somewhere in \<open>s\<close>, where \<open>prev\<close> says that
  the character before \<open>s\<close> is a word character.
\<close>

fun search_from :: "bool \<Rightarrow> string \<Rightarrow> bool" where
  "search_from prev [] = False"
| "search_from prev (c # cs) =
     ((\<not> prev \<and> c = CHR ''b'' \<and>
       (case cs of
          [] \<Rightarrow> False
        | r # rest \<Rightarrow> r = CHR ''r'' \<and> (case rest of [] \<Rightarrow> True | d # _ \<Rightarrow> \<not> is_word_char d)))
      \<or> search_from (is_word_char c) cs)"

definition RE_ACCEPT_ENCODING_BROTLI_search :: "string \<Rightarrow> bool" where
  "RE_ACCEPT_ENCODING_BROTLI_search s = search_from False s"

definition accepts_brotli_encoding :: "request \<Rightarrow> bool" where
  "accepts_brotli_encoding request =
     RE_ACCEPT_ENCODING_BROTLI_search (META_get request ''HTTP_ACCEPT_ENCODING'' [])"

definition BrotliMiddleware_process_response :: "library \<Rightarrow> request \<Rightarrow> response \<Rightarrow> response" where
  "BrotliMiddleware_process_response lib request response =
     (if streaming response
         \<or> has_header response ''Content-Encoding''
         \<or> \<not> accepts_brotli_encoding request
         \<or> length (content response) < MIN_LEN_RESPONSE_TO_PROCESS
      then response
      else
        let compressed_content = brotli_compress lib (content response) in
        if length compressed_content \<ge> length (content response) then response
        else
          let r1 = response\<lparr>content := compressed_content\<rparr>;
              r2 = patch_vary_headers lib r1 [''Accept-Encoding''];
              r3 = set_header r2 ''Content-Length'' (str (length compressed_content));
              r4 = set_header r3 ''Content-Encoding'' ''br''
          in r4)"

section \<open>LocaleURLMiddleware\<close>

definition in_LANGUAGES :: "settings \<Rightarrow> string option \<Rightarrow> bool" where
  "in_LANGUAGES st lang =
     (case lang of None \<Rightarrow> False | Some l \<Rightarrow> l \<in> set (map fst (LANGUAGES st)))"

text \<open>
  \<^verbatim>\<open>set_url_prefixer(prefixer)\<close> stores the object itself, so the later assignment
  \<^verbatim>\<open>prefixer.locale = ''\<close> is seen through the stored reference as well.
\<close>

definition LocaleURLMiddleware_process_request ::
  "library \<Rightarrow> kuma \<Rightarrow> settings \<Rightarrow> thread \<Rightarrow> request \<Rightarrow> response option \<times> request \<times> thread" where
  "LocaleURLMiddleware_process_request lib km st th request =
     (let prefixer = new_Prefixer km request;
          th1 = th\<lparr>url_prefixer := Some prefixer\<rparr>;
          full_path = prefixer_fix km prefixer (shortened_path prefixer);
          lang = QueryDict_get (GET request) ''lang''
      in
      if in_LANGUAGES st lang then
        let prefixer1 = prefixer\<lparr>prefixer_locale := []\<rparr>;
            th2 = th1\<lparr>url_prefixer := Some prefixer1\<rparr>;
            new_path = prefixer_fix km prefixer1 (shortened_path prefixer1);
            query = dict (map (\<lambda>kv. (smart_str (fst kv), snd kv))
                            (filter (\<lambda>kv. fst kv \<noteq> ''lang'') (QueryDict_iteritems (GET request))))
        in (Some (HttpResponseRedirect (urlparams km new_path query)), request, th2)
      else if full_path \<noteq> path request then
        let query_string = META_get request ''QUERY_STRING'' [];
            full_path1 = urllib_quote lib full_path;
            full_path2 = (if query_string \<noteq> [] then full_path1 @ ''?'' @ query_string
                          else full_path1);
            response = HttpResponseRedirect full_path2;
            old_locale = prefixer_locale prefixer;
            new_locale = fst (split_path km full_path2)
        in (Some (if old_locale \<noteq> new_locale
                  then set_header response ''Vary'' ''Accept-Language''
                  else response),
            request, th1)
      else
        let code = (if prefixer_locale prefixer \<noteq> [] then prefixer_locale prefixer else LANGUAGE_CODE st) in
        (None,
         request\<lparr>path_info := ''/'' @ shortened_path prefixer,
                 request_LANGUAGE_CODE := Some code\<rparr>,
         th1\<lparr>active_translation := Some code\<rparr>))"

section \<open>Forbidden403Middleware\<close>

definition Forbidden403Middleware_process_response :: "kuma \<Rightarrow> request \<Rightarrow> response \<Rightarrow> response" where
  "Forbidden403Middleware_process_response km request response =
     (if response_class response = HttpResponseForbidden_class then handler403 km request
      else response)"

section \<open>RemoveSlashMiddleware\<close>

definition is_valid_path :: "library \<Rightarrow> request \<Rightarrow> string \<Rightarrow> bool" where
  "is_valid_path lib request p =
     (case resolve lib p (urlconf request) of Some _ \<Rightarrow> True | None \<Rightarrow> False)"

text \<open>
  The context manager: \<open>body\<close> is the block under \<^verbatim>\<open>with\<close>, which runs on the request
  with the replaced query string and may raise. The \<^verbatim>\<open>finally\<close> clause runs whether the
  \<^verbatim>\<open>try\<close> block (the assignment, then the body) raised or not; the first subscript
  is outside the \<^verbatim>\<open>try\<close>.
\<close>

definition safe_query_string ::
  "library \<Rightarrow> request \<Rightarrow> (request \<Rightarrow> (error + 'a) \<times> request) \<Rightarrow> (error + 'a) \<times> request" where
  "safe_query_string lib request body =
     (case META request ''QUERY_STRING'' of
        None \<Rightarrow> (Inl (KeyError ''QUERY_STRING''), request)
      | Some qs \<Rightarrow>
          let tried =
                (case iri_to_uri lib qs of
                   Inl e \<Rightarrow> (Inl e, request)
                 | Inr uri \<Rightarrow> body (request\<lparr>META := (META request)(''QUERY_STRING'' \<mapsto> uri)\<rparr>))
          in (fst tried, (snd tried)\<lparr>META := (META (snd tried))(''QUERY_STRING'' \<mapsto> qs)\<rparr>))"

definition RemoveSlashMiddleware_process_response ::
  "library \<Rightarrow> request \<Rightarrow> response \<Rightarrow> (error + response) \<times> request" where
  "RemoveSlashMiddleware_process_response lib request response =
     (if status_code response = 404
         \<and> endswith_slash (path_info request)
         \<and> \<not> is_valid_path lib request (path_info request)
         \<and> is_valid_path lib request (butlast (path_info request))
      then
        let newurl = butlast (path request) in
        if GET request \<noteq> [] then
          (case safe_query_string lib request
                  (\<lambda>rq. case META rq ''QUERY_STRING'' of
                           None \<Rightarrow> (Inl (KeyError ''QUERY_STRING''), rq)
                         | Some q \<Rightarrow> (Inr (newurl @ ''?'' @ q), rq)) of
             (Inl e, rq) \<Rightarrow> (Inl e, rq)
           | (Inr newurl1, rq) \<Rightarrow> (Inr (HttpResponsePermanentRedirect newurl1), rq))
        else (Inr (HttpResponsePermanentRedirect newurl), request)
      else (Inr response, request))"

section \<open>SetRemoteAddrFromForwardedFor\<close>

definition SetRemoteAddrFromForwardedFor_process_request :: "request \<Rightarrow> error + request" where
  "SetRemoteAddrFromForwardedFor_process_request request =
     (case META request ''HTTP_X_FORWARDED_FOR'' of
        None \<Rightarrow> Inr request
      | Some forwarded_for \<Rightarrow>
          (case split_str CHR '','' forwarded_for of
             [] \<Rightarrow> Inl IndexError
           | first # _ \<Rightarrow>
               Inr (request\<lparr>META := (META request)(''REMOTE_ADDR'' \<mapsto> strip first)\<rparr>)))"

section \<open>RestrictedEndpointsMiddleware\<close>

definition RestrictedEndpointsMiddleware_process_request ::
  "kuma \<Rightarrow> settings \<Rightarrow> request \<Rightarrow> request" where
  "RestrictedEndpointsMiddleware_process_request km st request =
     (if ENABLE_RESTRICTIONS_BY_HOST st \<and> is_untrusted km request
      then request\<lparr>urlconf := Some ''kuma.urls_untrusted''\<rparr>
      else request)"

section \<open>LegacyDomainRedirectsMiddleware\<close>

definition LegacyDomainRedirectsMiddleware_process_request ::
  "library \<Rightarrow> settings \<Rightarrow> request \<Rightarrow> response option" where
  "LegacyDomainRedirectsMiddleware_process_request lib st request =
     (if get_host lib request \<in> set (LEGACY_HOSTS st)
      then Some (HttpResponsePermanentRedirect
                   (urljoin lib (SITE_URL st) (get_full_path lib request)))
      else None)"

section \<open>GZipMiddleware\<close>

definition GZipMiddleware_process_response :: "library \<Rightarrow> request \<Rightarrow> response \<Rightarrow> response" where
  "GZipMiddleware_process_response lib request response =
     (let original_etag = get_header response ''etag'';
          response_out = super_process_response lib request response
      in case original_etag of
           None \<Rightarrow> response_out
         | Some etag \<Rightarrow>
             if has_header response_out ''etag'' then set_header response_out ''etag'' etag
             else response_out)"

section \<open>The claims' own words\<close>

text \<open>What the claims say in their own words, to be compared with the code.\<close>

text \<open>
  The token \<^verbatim>\<open>br\<close> occurs in \<open>s\<close> as a whole word: \<open>s\<close> is \<open>u @ ''br'' @ v\<close> with no word
  character at the end of \<open>u\<close> or at the start of \<open>v\<close>. In \<open>left_ok prev u\<close>, \<open>prev\<close>
  says whether a word character stands before \<open>u\<close>.
\<close>

definition left_ok :: "bool \<Rightarrow> string \<Rightarrow> bool" where
  "left_ok prev u = (case rev u of [] \<Rightarrow> \<not> prev | c # _ \<Rightarrow> \<not> is_word_char c)"

definition right_ok :: "string \<Rightarrow> bool" where
  "right_ok v = (case v of [] \<Rightarrow> True | d # _ \<Rightarrow> \<not> is_word_char d)"

definition contains_word_br :: "string \<Rightarrow> bool" where
  "contains_word_br s = (\<exists>u v. s = u @ ''br'' @ v \<and> left_ok False u \<and> right_ok v)"

section \<open>Example instances\<close>

text \<open>
  Concrete libraries, settings and requests on which the theorems below are
  instantiated. The functions of \<open>example_library\<close> and \<open>example_kuma\<close> are stand-ins
  with the right types; the theorems hold for every library.
\<close>

definition example_library :: library where
  "example_library =
     \<lparr>brotli_compress = (\<lambda>s. take (length s div 2) s),
      vary_value = (\<lambda>old new. case old of None \<Rightarrow> concat new | Some v \<Rightarrow> v @ '', '' @ concat new),
      resolve = (\<lambda>p conf. if p = ''/docs'' then Some ''docs'' else None),
      iri_to_uri = (\<lambda>s. if CHR 0x00 \<in> set s then Inl (Raised ''iri_to_uri'')
                        else Inr (concat (map (\<lambda>c. if c = CHR '' '' then ''%20'' else [c]) s))),
      get_host = (\<lambda>r. META_get r ''HTTP_HOST'' []),
      get_full_path = path,
      urljoin = (\<lambda>base url. base @ url),
      urllib_quote = (\<lambda>s. s),
      super_process_response = (\<lambda>rq r. set_header (r\<lparr>content := take 10 (content r)\<rparr>) ''ETag'' ''W/x'')\<rparr>"

definition example_kuma :: kuma where
  "example_kuma =
     \<lparr>new_Prefixer = (\<lambda>r. \<lparr>prefixer_request = r, prefixer_locale = ''en-US'',
                              shortened_path = drop 1 (path_info r)\<rparr>),
      prefixer_fix = (\<lambda>p s. ''/'' @ prefixer_locale p @ (if prefixer_locale p = [] then [] else ''/'') @ s),
      split_path = (\<lambda>s. (''en-US'', s)),
      is_untrusted = (\<lambda>r. META_get r ''HTTP_HOST'' [] = ''untrusted.example''),
      urlparams = (\<lambda>url query. url @ (case query ''q'' of None \<Rightarrow> [] | Some v \<Rightarrow> ''?q='' @ v)),
      handler403 = (\<lambda>r. \<lparr>response_class = HttpResponse_class, status_code = 403,
                           headers = Map.empty, content = ''403.html'', streaming = False\<rparr>)\<rparr>"

definition example_settings :: settings where
  "example_settings =
     \<lparr>LANGUAGES = [(''en-US'', ''English (US)''), (''fr'', ''French'')],
      LANGUAGE_CODE = ''en-US'',
      ENABLE_RESTRICTIONS_BY_HOST = True,
      LEGACY_HOSTS = [''developer.mozilla.com'', ''developer-new.mozilla.org''],
      SITE_URL = ''https://developer.mozilla.org''\<rparr>"

definition example_thread :: thread where
  "example_thread = \<lparr>url_prefixer = None, active_translation = None\<rparr>"

definition example_request :: request where
  "example_request =
     \<lparr>path = ''/en-US/docs/'',
      path_info = ''/docs/'',
      GET = [(''lang'', ''fr''), (''q'', ''a b'')],
      META = [''HTTP_ACCEPT_ENCODING'' \<mapsto> ''gzip, deflate, br'',
              ''QUERY_STRING'' \<mapsto> ''lang=fr&q=a b'',
              ''HTTP_HOST'' \<mapsto> ''developer.mozilla.com'',
              ''HTTP_X_FORWARDED_FOR'' \<mapsto> '' 10.0.0.1 , 192.168.0.1''],
      urlconf = None,
      request_LANGUAGE_CODE = None\<rparr>"

definition example_response :: response where
  "example_response =
     \<lparr>response_class = HttpResponse_class, status_code = 200,
      headers = [''etag'' \<mapsto> (''ETag'', ''abc'')],
      content = replicate 300 CHR ''a'', streaming = False\<rparr>"

section \<open>Properties\<close>

subsection \<open>The pattern of BrotliMiddleware\<close>

lemma left_ok_Nil: "left_ok prev [] = (\<not> prev)"
  by (simp add: left_ok_def)

lemma left_ok_Cons: "left_ok prev (c # u) = left_ok (is_word_char c) u"
  by (cases "rev u") (auto simp: left_ok_def)

lemma search_from_Cons:
  "search_from prev (c # cs) \<longleftrightarrow>
     (\<not> prev \<and> c = CHR ''b'' \<and> (\<exists>v. cs = CHR ''r'' # v \<and> right_ok v))
     \<or> search_from (is_word_char c) cs"
  by (cases cs) (simp_all add: right_ok_def)

text \<open>The search finds a match exactly where the two letters stand between boundaries.\<close>

lemma search_from_iff:
  "search_from prev s \<longleftrightarrow>
     (\<exists>u v. s = u @ CHR ''b'' # CHR ''r'' # v \<and> left_ok prev u \<and> right_ok v)"
proof (induction s arbitrary: prev)
  case Nil
  show ?case by simp
next
  case (Cons c cs)
  have "(\<exists>u v. c # cs = u @ CHR ''b'' # CHR ''r'' # v \<and> left_ok prev u \<and> right_ok v)
      \<longleftrightarrow> (\<exists>v. c # cs = CHR ''b'' # CHR ''r'' # v \<and> left_ok prev [] \<and> right_ok v)
        \<or> (\<exists>u' v. cs = u' @ CHR ''b'' # CHR ''r'' # v \<and> left_ok prev (c # u') \<and> right_ok v)"
    (is "?L \<longleftrightarrow> ?A \<or> ?B")
  proof
    assume ?L
    then obtain u v where uv:
      "c # cs = u @ CHR ''b'' # CHR ''r'' # v" "left_ok prev u" "right_ok v"
      by blast
    show "?A \<or> ?B"
    proof (cases u)
      case Nil
      with uv have ?A by simp
      then show ?thesis ..
    next
      case (Cons a u')
      with uv have "cs = u' @ CHR ''b'' # CHR ''r'' # v" "left_ok prev (c # u')"
        by simp_all
      with uv(3) have ?B by blast
      then show ?thesis ..
    qed
  next
    assume "?A \<or> ?B"
    then show ?L
    proof
      assume ?A
      then obtain v where
        "c # cs = [] @ CHR ''b'' # CHR ''r'' # v" "left_ok prev []" "right_ok v"
        by auto
      then show ?L by blast
    next
      assume ?B
      then obtain u' v where
        "c # cs = (c # u') @ CHR ''b'' # CHR ''r'' # v" "left_ok prev (c # u')" "right_ok v"
        by auto
      then show ?L by blast
    qed
  qed
  also have "?A \<longleftrightarrow> (\<not> prev \<and> c = CHR ''b'' \<and> (\<exists>v. cs = CHR ''r'' # v \<and> right_ok v))"
    by (auto simp: left_ok_Nil)
  also have "?B \<longleftrightarrow> search_from (is_word_char c) cs"
    by (simp add: left_ok_Cons Cons.IH)
  finally show ?case
    by (simp only: search_from_Cons)
qed

lemma search_contains_word_br: "RE_ACCEPT_ENCODING_BROTLI_search s = contains_word_br s"
  by (simp add: RE_ACCEPT_ENCODING_BROTLI_search_def contains_word_br_def search_from_iff)

lemma contains_word_br_code: "contains_word_br s = search_from False s"
  by (simp add: search_contains_word_br [symmetric] RE_ACCEPT_ENCODING_BROTLI_search_def)

lemma lower_names:
  "lower ''Content-Encoding'' = ''content-encoding''"
  "lower ''Content-Length'' = ''content-length''"
  "lower ''Vary'' = ''vary''"
  "lower ''etag'' = ''etag''"
  "lower ''ETag'' = ''etag''"
  "lower ''Location'' = ''location''"
  by (simp_all add: lower_def lower_char_def)

subsection \<open>BrotliMiddleware\<close>

text \<open>
  C1. \<^verbatim>\<open>BrotliMiddleware.process_response\<close> returns the response as it is, whatever the
  compressor, when the response is streaming, or already has a Content-Encoding
  header, or the request's Accept-Encoding header does not contain \<^verbatim>\<open>br\<close> as a whole
  word (an absent header counts as empty), or the content is shorter than 200
  bytes. Only when none of these holds is the content compressed: the returned
  content is then the compressor's output if that is strictly shorter, and the
  original content if not.
\<close>

theorem BrotliMiddleware_skip_conditions:
  "(if streaming response
       \<or> has_header response ''Content-Encoding''
       \<or> \<not> contains_word_br (META_get request ''HTTP_ACCEPT_ENCODING'' [])
       \<or> length (content response) < 200
    then BrotliMiddleware_process_response lib request response = response
    else content (BrotliMiddleware_process_response lib request response)
           = (let c = brotli_compress lib (content response)
              in if length c < length (content response) then c else content response))"
  by (simp add: BrotliMiddleware_process_response_def accepts_brotli_encoding_def
        search_contains_word_br MIN_LEN_RESPONSE_TO_PROCESS_def Let_def
        patch_vary_headers_def set_header_def)

theorem BrotliMiddleware_skip_conditions_witness:
  "\<not> contains_word_br ''gzip, brotli''
   \<and> BrotliMiddleware_process_response example_library
        (example_request\<lparr>META := [''HTTP_ACCEPT_ENCODING'' \<mapsto> ''gzip, brotli'']\<rparr>) example_response
      = example_response
   \<and> contains_word_br ''gzip, deflate, br''
   \<and> content (BrotliMiddleware_process_response example_library example_request example_response)
      = replicate 150 CHR ''a''"
  using BrotliMiddleware_skip_conditions
          [of example_response "example_request\<lparr>META := [''HTTP_ACCEPT_ENCODING'' \<mapsto> ''gzip, brotli'']\<rparr>"
              example_library]
        BrotliMiddleware_skip_conditions [of example_response example_request example_library]
  by (simp add: contains_word_br_code is_word_char_def example_request_def example_response_def
        example_library_def META_get_def has_header_def lower_names)

text \<open>
  C2. The response that \<^verbatim>\<open>BrotliMiddleware.process_response\<close> returns never has a longer
  content than the one it was given. When the compressor's output is not strictly
  shorter than the content, the response is returned as it is. When compression
  runs (none of the skip conditions holds) and its output is strictly shorter, the
  returned response carries the compressed content, Content-Encoding \<^verbatim>\<open>br\<close>,
  Content-Length the decimal length of the compressed content, and the Vary header
  that \<^verbatim>\<open>patch_vary_headers\<close> computes for \<^verbatim>\<open>Accept-Encoding\<close>; every other header, the
  status and the class are those of the input.
\<close>

theorem BrotliMiddleware_never_longer:
  fixes lib request response
  defines "out \<equiv> BrotliMiddleware_process_response lib request response"
    and "c \<equiv> brotli_compress lib (content response)"
  shows "length (content out) \<le> length (content response)
    \<and> (length c \<ge> length (content response) \<longrightarrow> out = response)
    \<and> (\<not> streaming response \<and> \<not> has_header response ''Content-Encoding''
         \<and> accepts_brotli_encoding request \<and> length (content response) \<ge> 200
         \<and> length c < length (content response) \<longrightarrow>
          content out = c
        \<and> get_header out ''Content-Encoding'' = Some ''br''
        \<and> get_header out ''Content-Length'' = Some (str (length c))
        \<and> get_header out ''Vary''
            = Some (vary_value lib (get_header response ''Vary'') [''Accept-Encoding''])
        \<and> (\<forall>h. lower h \<notin> {''content-encoding'', ''content-length'', ''vary''}
              \<longrightarrow> get_header out h = get_header response h)
        \<and> status_code out = status_code response
        \<and> response_class out = response_class response
        \<and> streaming out = streaming response)"
  unfolding out_def c_def
  by (simp add: BrotliMiddleware_process_response_def Let_def MIN_LEN_RESPONSE_TO_PROCESS_def
        patch_vary_headers_def set_header_def get_header_def lower_names)

theorem BrotliMiddleware_never_longer_witness:
  "length (content (BrotliMiddleware_process_response example_library example_request example_response))
      \<le> length (content example_response)
   \<and> content (BrotliMiddleware_process_response example_library example_request example_response)
      = replicate 150 CHR ''a''
   \<and> get_header (BrotliMiddleware_process_response example_library example_request example_response)
        ''Content-Encoding'' = Some ''br''
   \<and> get_header (BrotliMiddleware_process_response example_library example_request example_response)
        ''Content-Length'' = Some ''150''
   \<and> get_header (BrotliMiddleware_process_response example_library example_request example_response)
        ''Vary'' = Some ''Accept-Encoding''
   \<and> get_header (BrotliMiddleware_process_response example_library example_request example_response)
        ''ETag'' = Some ''abc''"
proof -
  note T = BrotliMiddleware_never_longer [of example_library example_request example_response]
  have c: "brotli_compress example_library (content example_response) = replicate 150 CHR ''a''"
    by (simp add: example_library_def example_response_def)
  have pre: "\<not> streaming example_response \<and> \<not> has_header example_response ''Content-Encoding''
      \<and> accepts_brotli_encoding example_request \<and> length (content example_response) \<ge> 200
      \<and> length (brotli_compress example_library (content example_response))
          < length (content example_response)"
    unfolding c
    by (simp add: accepts_brotli_encoding_def RE_ACCEPT_ENCODING_BROTLI_search_def
        is_word_char_def example_request_def example_response_def META_get_def
        has_header_def lower_names)
  note C = T [THEN conjunct2, THEN conjunct2, THEN mp, OF pre]
  have etag: "lower ''ETag'' \<notin> {''content-encoding'', ''content-length'', ''vary''}"
    by (simp add: lower_names)
  have v: "vary_value example_library (get_header example_response ''Vary'') [''Accept-Encoding'']
      = ''Accept-Encoding''"
    by (simp add: example_library_def example_response_def get_header_def lower_names)
  have s: "str 150 = ''150''"
    by (simp add: str.simps)
  have e: "get_header example_response ''ETag'' = Some ''abc''"
    by (simp add: example_response_def get_header_def lower_names)
  from C etag show ?thesis
    using T [THEN conjunct1] by (simp add: c v s e)
qed

subsection \<open>RemoveSlashMiddleware\<close>

lemma endswith_slash_iff: "endswith_slash s \<longleftrightarrow> s \<noteq> [] \<and> last s = CHR ''/''"
  by (cases s rule: rev_cases) (simp_all add: endswith_slash_def)

lemma safe_query_string_restores:
  "META (snd (safe_query_string lib request body)) ''QUERY_STRING'' = META request ''QUERY_STRING''"
  by (simp add: safe_query_string_def Let_def split: option.splits)

lemma safe_query_string_runs_body:
  assumes "META request ''QUERY_STRING'' = Some qs" and "iri_to_uri lib qs = Inr uri"
  shows "fst (safe_query_string lib request body)
           = fst (body (request\<lparr>META := (META request)(''QUERY_STRING'' \<mapsto> uri)\<rparr>))"
  using assms by (simp add: safe_query_string_def Let_def)

lemma safe_query_string_pure_body:
  assumes "\<And>rq. snd (body rq) = rq"
  shows "snd (safe_query_string lib request body) = request"
proof (cases "META request ''QUERY_STRING''")
  case None
  then show ?thesis by (simp add: safe_query_string_def)
next
  case (Some qs)
  then have "(META request)(''QUERY_STRING'' \<mapsto> qs) = META request"
    by (simp add: fun_upd_idem)
  with Some show ?thesis
    by (cases "iri_to_uri lib qs") (simp_all add: safe_query_string_def Let_def assms)
qed

lemma redirect_status:
  "status_code (HttpResponsePermanentRedirect u) = 301"
  "status_code (HttpResponseRedirect u) = 302"
  "response_class (HttpResponsePermanentRedirect u) = HttpResponsePermanentRedirect_class"
  "response_class (HttpResponseRedirect u) = HttpResponseRedirect_class"
  "get_header (HttpResponsePermanentRedirect u) ''Location'' = Some u"
  "get_header (HttpResponseRedirect u) ''Location'' = Some u"
  by (simp_all add: HttpResponsePermanentRedirect_def HttpResponseRedirect_def get_header_def
        lower_def lower_char_def)

text \<open>
  C3. \<^verbatim>\<open>RemoveSlashMiddleware.process_response\<close> answers with a permanent redirect
  (status 301) to \<^verbatim>\<open>request.path\<close> without its last character exactly when the response
  has status 404, \<^verbatim>\<open>request.path_info\<close> ends with a slash and does not resolve, and
  \<^verbatim>\<open>request.path_info\<close> without the slash resolves; otherwise it returns the response it
  was given, and the two cases never coincide. When it redirects and the query
  dictionary is not empty, the query string, made URI-safe by \<^verbatim>\<open>iri_to_uri\<close>, follows the
  target after a question mark.
\<close>

theorem RemoveSlashMiddleware_redirect:
  fixes lib request response qs uri
  defines "out \<equiv> fst (RemoveSlashMiddleware_process_response lib request response)"
    and "cond \<equiv> status_code response = 404
          \<and> path_info request \<noteq> [] \<and> last (path_info request) = CHR ''/''
          \<and> resolve lib (path_info request) (urlconf request) = None
          \<and> resolve lib (butlast (path_info request)) (urlconf request) \<noteq> None"
  shows "(\<not> cond \<longrightarrow> out = Inr response)
    \<and> (cond \<longrightarrow> out \<noteq> Inr response)
    \<and> (cond \<and> GET request = [] \<longrightarrow>
          out = Inr (HttpResponsePermanentRedirect (butlast (path request))))
    \<and> (cond \<and> GET request \<noteq> [] \<and> META request ''QUERY_STRING'' = Some qs
          \<and> iri_to_uri lib qs = Inr uri \<longrightarrow>
          out = Inr (HttpResponsePermanentRedirect (butlast (path request) @ ''?'' @ uri)))
    \<and> (\<forall>r. cond \<and> out = Inr r \<longrightarrow>
          status_code r = 301 \<and> response_class r = HttpResponsePermanentRedirect_class)"
proof -
  have c: "cond \<longleftrightarrow> status_code response = 404
         \<and> endswith_slash (path_info request)
         \<and> \<not> is_valid_path lib request (path_info request)
         \<and> is_valid_path lib request (butlast (path_info request))"
    by (auto simp: cond_def endswith_slash_iff is_valid_path_def split: option.splits)
  have 1: "\<not> cond \<longrightarrow> out = Inr response"
    unfolding c out_def by (simp add: RemoveSlashMiddleware_process_response_def)
  have 3: "cond \<and> GET request = [] \<longrightarrow>
          out = Inr (HttpResponsePermanentRedirect (butlast (path request)))"
    unfolding c out_def by (simp add: RemoveSlashMiddleware_process_response_def)
  have 4: "cond \<and> GET request \<noteq> [] \<and> META request ''QUERY_STRING'' = Some qs
          \<and> iri_to_uri lib qs = Inr uri \<longrightarrow>
          out = Inr (HttpResponsePermanentRedirect (butlast (path request) @ ''?'' @ uri))"
    unfolding c out_def
    by (simp add: RemoveSlashMiddleware_process_response_def safe_query_string_def Let_def)
  have 5: "\<forall>r. cond \<and> out = Inr r \<longrightarrow>
          status_code r = 301 \<and> response_class r = HttpResponsePermanentRedirect_class"
    unfolding c out_def
    by (auto simp: RemoveSlashMiddleware_process_response_def Let_def redirect_status
          split: if_splits prod.splits sum.splits)
  have 2: "cond \<longrightarrow> out \<noteq> Inr response"
  proof
    assume cond
    show "out \<noteq> Inr response"
    proof
      assume "out = Inr response"
      with 5 \<open>cond\<close> have "status_code response = 301" by blast
      moreover from \<open>cond\<close> have "status_code response = 404" by (simp add: cond_def)
      ultimately show False by simp
    qed
  qed
  from 1 2 3 4 5 show ?thesis by blast
qed

theorem RemoveSlashMiddleware_redirect_witness:
  "fst (RemoveSlashMiddleware_process_response example_library example_request
          (example_response\<lparr>status_code := 404\<rparr>))
     = Inr (HttpResponsePermanentRedirect ''/en-US/docs?lang=fr&q=a%20b'')
   \<and> fst (RemoveSlashMiddleware_process_response example_library (example_request\<lparr>GET := []\<rparr>)
          (example_response\<lparr>status_code := 404\<rparr>))
     = Inr (HttpResponsePermanentRedirect ''/en-US/docs'')
   \<and> fst (RemoveSlashMiddleware_process_response example_library example_request example_response)
     = Inr example_response"
proof -
  let ?r404 = "example_response\<lparr>status_code := 404\<rparr>"
  let ?qs = "''lang=fr&q=a b''"
  let ?uri = "''lang=fr&q=a%20b''"
  note T1 = RemoveSlashMiddleware_redirect
    [where lib = example_library and request = example_request and response = ?r404
       and qs = ?qs and uri = ?uri]
  note T2 = RemoveSlashMiddleware_redirect
    [where lib = example_library and request = "example_request\<lparr>GET := []\<rparr>"
       and response = ?r404 and qs = ?qs and uri = ?uri]
  note T3 = RemoveSlashMiddleware_redirect
    [where lib = example_library and request = example_request and response = example_response
       and qs = ?qs and uri = ?uri]
  have p1: "(status_code ?r404 = 404
          \<and> path_info example_request \<noteq> [] \<and> last (path_info example_request) = CHR ''/''
          \<and> resolve example_library (path_info example_request) (urlconf example_request) = None
          \<and> resolve example_library (butlast (path_info example_request)) (urlconf example_request) \<noteq> None)
        \<and> GET example_request \<noteq> [] \<and> META example_request ''QUERY_STRING'' = Some ?qs
        \<and> iri_to_uri example_library ?qs = Inr ?uri"
    by (simp add: example_request_def example_library_def)
  have p2: "(status_code ?r404 = 404
          \<and> path_info (example_request\<lparr>GET := []\<rparr>) \<noteq> []
          \<and> last (path_info (example_request\<lparr>GET := []\<rparr>)) = CHR ''/''
          \<and> resolve example_library (path_info (example_request\<lparr>GET := []\<rparr>))
                (urlconf (example_request\<lparr>GET := []\<rparr>)) = None
          \<and> resolve example_library (butlast (path_info (example_request\<lparr>GET := []\<rparr>)))
                (urlconf (example_request\<lparr>GET := []\<rparr>)) \<noteq> None)
        \<and> GET (example_request\<lparr>GET := []\<rparr>) = []"
    by (simp add: example_request_def example_library_def)
  have p3: "\<not> (status_code example_response = 404
          \<and> path_info example_request \<noteq> [] \<and> last (path_info example_request) = CHR ''/''
          \<and> resolve example_library (path_info example_request) (urlconf example_request) = None
          \<and> resolve example_library (butlast (path_info example_request)) (urlconf example_request) \<noteq> None)"
    by (simp add: example_response_def)
  have b: "butlast (path example_request) = ''/en-US/docs''"
          "butlast (path (example_request\<lparr>GET := []\<rparr>)) = ''/en-US/docs''"
    by (simp_all add: example_request_def)
  from T1 [THEN conjunct2, THEN conjunct2, THEN conjunct2, THEN conjunct1, THEN mp, OF p1]
       T2 [THEN conjunct2, THEN conjunct2, THEN conjunct1, THEN mp, OF p2]
       T3 [THEN conjunct1, THEN mp, OF p3]
  show ?thesis by (simp add: b)
qed

lemma RemoveSlashMiddleware_request_unchanged:
  "META (snd (RemoveSlashMiddleware_process_response lib request response)) ''QUERY_STRING''
      = META request ''QUERY_STRING''
   \<and> snd (RemoveSlashMiddleware_process_response lib request response) = request"
proof -
  let ?body = "\<lambda>rq. case META rq ''QUERY_STRING'' of
                           None \<Rightarrow> (Inl (KeyError ''QUERY_STRING''), rq)
                         | Some q \<Rightarrow> (Inr (butlast (path request) @ ''?'' @ q) :: error + string, rq)"
  have "\<And>rq. snd (?body rq) = rq"
    by (simp split: option.splits)
  then have "snd (safe_query_string lib request ?body) = request"
    by (rule safe_query_string_pure_body)
  then have "snd (RemoveSlashMiddleware_process_response lib request response) = request"
    by (auto simp: RemoveSlashMiddleware_process_response_def Let_def
          split: prod.splits sum.splits)
  then show ?thesis by simp
qed

text \<open>
  C10. After \<^verbatim>\<open>RemoveSlashMiddleware.process_response\<close>, whether it returned or raised,
  \<^verbatim>\<open>request.META['QUERY_STRING']\<close> is what it was before the call, and so is the whole
  request. \<^verbatim>\<open>safe_query_string\<close> restores the value whatever the block under \<^verbatim>\<open>with\<close>
  does, also when that block raises; while the block runs, the value is the
  \<^verbatim>\<open>iri_to_uri\<close> encoding of the original.
\<close>

theorem RemoveSlashMiddleware_restores_query_string:
  "META (snd (RemoveSlashMiddleware_process_response lib request response)) ''QUERY_STRING''
      = META request ''QUERY_STRING''
   \<and> snd (RemoveSlashMiddleware_process_response lib request response) = request
   \<and> META (snd (safe_query_string lib request body)) ''QUERY_STRING''
      = META request ''QUERY_STRING''
   \<and> (META request ''QUERY_STRING'' = Some qs \<and> iri_to_uri lib qs = Inr uri \<longrightarrow>
        fst (safe_query_string lib request body)
          = fst (body (request\<lparr>META := (META request)(''QUERY_STRING'' \<mapsto> uri)\<rparr>)))"
  using RemoveSlashMiddleware_request_unchanged [where lib = lib and request = request and response = response]
        safe_query_string_restores [where lib = lib and request = request and body = body]
        safe_query_string_runs_body [where lib = lib and request = request and body = body and qs = qs and uri = uri]
  by blast

theorem RemoveSlashMiddleware_restores_query_string_witness:
  "META (snd (RemoveSlashMiddleware_process_response example_library example_request
                (example_response\<lparr>status_code := 404\<rparr>))) ''QUERY_STRING''
      = Some ''lang=fr&q=a b''
   \<and> META (snd (safe_query_string example_library example_request
                (\<lambda>rq. (Inl (Raised ''body'') :: error + string, rq)))) ''QUERY_STRING''
      = Some ''lang=fr&q=a b''
   \<and> fst (safe_query_string example_library example_request
            (\<lambda>rq. (Inr (META_get rq ''QUERY_STRING'' []) :: error + string, rq)))
      = Inr ''lang=fr&q=a%20b''"
proof -
  let ?qs = "''lang=fr&q=a b''"
  let ?uri = "''lang=fr&q=a%20b''"
  let ?raising = "\<lambda>rq :: request. (Inl (Raised ''body'') :: error + string, rq)"
  let ?reading = "\<lambda>rq. (Inr (META_get rq ''QUERY_STRING'' []) :: error + string, rq)"
  note T1 = RemoveSlashMiddleware_restores_query_string
    [where lib = example_library and request = example_request
       and response = "example_response\<lparr>status_code := 404\<rparr>"
       and body = ?raising and qs = ?qs and uri = ?uri]
  note T2 = RemoveSlashMiddleware_restores_query_string
    [where lib = example_library and request = example_request
       and response = "example_response\<lparr>status_code := 404\<rparr>"
       and body = ?reading and qs = ?qs and uri = ?uri]
  have p: "META example_request ''QUERY_STRING'' = Some ?qs \<and> iri_to_uri example_library ?qs = Inr ?uri"
    by (simp add: example_request_def example_library_def)
  from T1 [THEN conjunct1] T1 [THEN conjunct2, THEN conjunct2, THEN conjunct1]
       T2 [THEN conjunct2, THEN conjunct2, THEN conjunct2, THEN mp, OF p] p
  show ?thesis by (simp add: META_get_def)
qed

subsection \<open>SetRemoteAddrFromForwardedFor\<close>

lemma split_str_first: "\<exists>rest. split_str sep s = takeWhile (\<lambda>c. c \<noteq> sep) s # rest"
  by (induction s) auto

lemma last_dropWhile:
  assumes "dropWhile P xs \<noteq> []"
  shows "last (dropWhile P xs) = last xs"
proof -
  have "last (takeWhile P xs @ dropWhile P xs) = last (dropWhile P xs)"
    using assms by (rule last_appendR)
  then show ?thesis by (simp only: takeWhile_dropWhile_id)
qed

lemma strip_decompose:
  "\<exists>a b. s = a @ strip s @ b \<and> (\<forall>c\<in>set a. is_space c) \<and> (\<forall>c\<in>set b. is_space c)"
proof -
  let ?t = "dropWhile is_space s"
  let ?a = "takeWhile is_space s"
  let ?b = "rev (takeWhile is_space (rev ?t))"
  have "rev (rev ?t) = rev (takeWhile is_space (rev ?t) @ dropWhile is_space (rev ?t))"
    by (simp only: takeWhile_dropWhile_id)
  then have 3: "?t = strip s @ ?b"
    by (simp only: rev_rev_ident rev_append strip_def)
  have "s = ?a @ ?t"
    by (simp only: takeWhile_dropWhile_id)
  with 3 have "s = ?a @ strip s @ ?b"
    by (simp only:)
  moreover have "\<forall>c\<in>set ?a. is_space c"
    by (auto dest: set_takeWhileD)
  moreover have "\<forall>c\<in>set ?b. is_space c"
    by (auto dest: set_takeWhileD)
  ultimately show ?thesis by blast
qed

lemma strip_ends:
  "strip s = [] \<or> (\<not> is_space (hd (strip s)) \<and> \<not> is_space (last (strip s)))"
proof (cases "strip s = []")
  case True
  then show ?thesis by simp
next
  case False
  let ?t = "dropWhile is_space s"
  let ?r = "dropWhile is_space (rev ?t)"
  from False have r: "?r \<noteq> []" by (simp add: strip_def)
  then have "\<not> is_space (hd ?r)" by (rule hd_dropWhile)
  then have l: "\<not> is_space (last (strip s))"
    using r by (simp add: strip_def last_rev)
  have t: "?t \<noteq> []"
  proof
    assume a: "?t = []"
    have "?r = []" unfolding a by simp
    with r show False by simp
  qed
  then have ht: "\<not> is_space (hd ?t)" by (rule hd_dropWhile)
  have "hd (strip s) = last ?r" using r by (simp add: strip_def hd_rev)
  also have "\<dots> = last (rev ?t)" using r by (rule last_dropWhile)
  also have "\<dots> = hd ?t" using t by (simp add: last_rev)
  finally show ?thesis using ht l by simp
qed

lemma takeWhile_first_entry:
  "xs = takeWhile (\<lambda>c. c \<noteq> sep) xs \<or> (\<exists>rest. xs = takeWhile (\<lambda>c. c \<noteq> sep) xs @ sep # rest)"
  by (induction xs) auto

text \<open>
  C4. When \<^verbatim>\<open>request.META\<close> has \<^verbatim>\<open>HTTP_X_FORWARDED_FOR\<close>,
  \<^verbatim>\<open>SetRemoteAddrFromForwardedFor.process_request\<close> sets \<^verbatim>\<open>REMOTE_ADDR\<close> to the first
  comma-separated entry of that header (the header up to its first comma) with the
  whitespace around it removed, and changes nothing else; it does not raise. When
  the header is absent the request is left as it is.
\<close>

theorem SetRemoteAddrFromForwardedFor_sets_first_entry:
  fixes request xff
  defines "first \<equiv> takeWhile (\<lambda>c. c \<noteq> CHR '','') xff"
  shows
   "(META request ''HTTP_X_FORWARDED_FOR'' = None \<longrightarrow>
       SetRemoteAddrFromForwardedFor_process_request request = Inr request)
    \<and> (META request ''HTTP_X_FORWARDED_FOR'' = Some xff \<longrightarrow>
         SetRemoteAddrFromForwardedFor_process_request request
           = Inr (request\<lparr>META := (META request)(''REMOTE_ADDR'' \<mapsto> strip first)\<rparr>)
         \<and> (\<exists>a b. first = a @ strip first @ b
                \<and> (\<forall>c\<in>set a. is_space c) \<and> (\<forall>c\<in>set b. is_space c))
         \<and> (strip first = [] \<or> (\<not> is_space (hd (strip first)) \<and> \<not> is_space (last (strip first))))
         \<and> (\<exists>rest. xff = first \<or> xff = first @ CHR '','' # rest))"
proof -
  obtain rest where "split_str CHR '','' xff = first # rest"
    unfolding first_def using split_str_first by blast
  then have "META request ''HTTP_X_FORWARDED_FOR'' = Some xff \<longrightarrow>
         SetRemoteAddrFromForwardedFor_process_request request
           = Inr (request\<lparr>META := (META request)(''REMOTE_ADDR'' \<mapsto> strip first)\<rparr>)"
    by (simp add: SetRemoteAddrFromForwardedFor_process_request_def)
  moreover have "META request ''HTTP_X_FORWARDED_FOR'' = None \<longrightarrow>
       SetRemoteAddrFromForwardedFor_process_request request = Inr request"
    by (simp add: SetRemoteAddrFromForwardedFor_process_request_def)
  moreover have "\<exists>rest. xff = first \<or> xff = first @ CHR '','' # rest"
    unfolding first_def using takeWhile_first_entry [of xff "CHR '',''"] by blast
  ultimately show ?thesis
    using strip_decompose [of first] strip_ends [of first] by blast
qed

theorem SetRemoteAddrFromForwardedFor_sets_first_entry_witness:
  "(\<exists>r. SetRemoteAddrFromForwardedFor_process_request example_request = Inr r
        \<and> META r ''REMOTE_ADDR'' = Some ''10.0.0.1''
        \<and> META r ''HTTP_HOST'' = META example_request ''HTTP_HOST'')
   \<and> SetRemoteAddrFromForwardedFor_process_request (example_request\<lparr>META := Map.empty\<rparr>)
       = Inr (example_request\<lparr>META := Map.empty\<rparr>)"
proof -
  let ?xff = "'' 10.0.0.1 , 192.168.0.1''"
  note T1 = SetRemoteAddrFromForwardedFor_sets_first_entry
    [where request = example_request and xff = ?xff]
  note T2 = SetRemoteAddrFromForwardedFor_sets_first_entry
    [where request = "example_request\<lparr>META := Map.empty\<rparr>" and xff = ?xff]
  have p1: "META example_request ''HTTP_X_FORWARDED_FOR'' = Some ?xff"
    by (simp add: example_request_def)
  have p2: "META (example_request\<lparr>META := Map.empty\<rparr>) ''HTTP_X_FORWARDED_FOR'' = None"
    by simp
  have s: "strip (takeWhile (\<lambda>c. c \<noteq> CHR '','') ?xff) = ''10.0.0.1''"
    by (simp add: strip_def is_space_def)
  have s': "strip '' 10.0.0.1 '' = ''10.0.0.1''"
    by (simp add: strip_def is_space_def)
  have h: "META example_request ''HTTP_HOST'' = Some ''developer.mozilla.com''"
    by (simp add: example_request_def)
  from T1 [THEN conjunct2, THEN mp, OF p1, THEN conjunct1] T2 [THEN conjunct1, THEN mp, OF p2]
  show ?thesis by (simp add: s s' h)
qed

subsection \<open>Forbidden403Middleware\<close>

lemma Forbidden403Middleware_by_class:
  "Forbidden403Middleware_process_response km request response
     = (if response_class response = HttpResponseForbidden_class then handler403 km request else response)"
  by (simp add: Forbidden403Middleware_process_response_def)

text \<open>
  C5. The docstring of \<^verbatim>\<open>Forbidden403Middleware\<close> promises the 403 page for every response
  with status code 403; the code tests the class of the response. A plain response
  with status 403 is returned as it is, not rendered by \<^verbatim>\<open>handler403\<close>.
\<close>

theorem Forbidden403Middleware_plain_403_not_rendered:
  "status_code (example_response\<lparr>status_code := 403\<rparr>) = 403
   \<and> Forbidden403Middleware_process_response example_kuma example_request
        (example_response\<lparr>status_code := 403\<rparr>) = example_response\<lparr>status_code := 403\<rparr>
   \<and> handler403 example_kuma example_request \<noteq> example_response\<lparr>status_code := 403\<rparr>"
proof -
  have "length (content (handler403 example_kuma example_request))
      \<noteq> length (content (example_response\<lparr>status_code := 403\<rparr>))"
    by (simp add: example_kuma_def example_response_def)
  then have "handler403 example_kuma example_request \<noteq> example_response\<lparr>status_code := 403\<rparr>"
    by auto
  then show ?thesis
    by (simp add: Forbidden403Middleware_process_response_def example_response_def)
qed

subsection \<open>LegacyDomainRedirectsMiddleware\<close>

text \<open>
  C6. \<^verbatim>\<open>LegacyDomainRedirectsMiddleware.process_request\<close> returns a permanent redirect
  (status 301) to \<^verbatim>\<open>urljoin(settings.SITE_URL, request.get_full_path())\<close> exactly when the
  request's host is one of \<^verbatim>\<open>settings.LEGACY_HOSTS\<close>, and \<^verbatim>\<open>None\<close> for every other host.
\<close>

theorem LegacyDomainRedirectsMiddleware_redirects_legacy_hosts:
  fixes lib st request
  defines "out \<equiv> LegacyDomainRedirectsMiddleware_process_request lib st request"
    and "target \<equiv> urljoin lib (SITE_URL st) (get_full_path lib request)"
  shows "(get_host lib request \<in> set (LEGACY_HOSTS st) \<longrightarrow>
            out = Some (HttpResponsePermanentRedirect target))
    \<and> (get_host lib request \<notin> set (LEGACY_HOSTS st) \<longrightarrow> out = None)
    \<and> (out \<noteq> None \<longleftrightarrow> get_host lib request \<in> set (LEGACY_HOSTS st))
    \<and> (\<forall>r. out = Some r \<longrightarrow>
          status_code r = 301 \<and> response_class r = HttpResponsePermanentRedirect_class
          \<and> get_header r ''Location'' = Some target)"
  unfolding out_def target_def
  by (auto simp: LegacyDomainRedirectsMiddleware_process_request_def redirect_status)

theorem LegacyDomainRedirectsMiddleware_redirects_legacy_hosts_witness:
  "LegacyDomainRedirectsMiddleware_process_request example_library example_settings example_request
     = Some (HttpResponsePermanentRedirect ''https://developer.mozilla.org/en-US/docs/'')
   \<and> LegacyDomainRedirectsMiddleware_process_request example_library example_settings
        (example_request\<lparr>META := [''HTTP_HOST'' \<mapsto> ''developer.mozilla.org'']\<rparr>) = None"
proof -
  let ?other = "example_request\<lparr>META := [''HTTP_HOST'' \<mapsto> ''developer.mozilla.org'']\<rparr>"
  note T1 = LegacyDomainRedirectsMiddleware_redirects_legacy_hosts
    [where lib = example_library and request = example_request and st = example_settings]
  note T2 = LegacyDomainRedirectsMiddleware_redirects_legacy_hosts
    [where lib = example_library and request = ?other and st = example_settings]
  have p1: "get_host example_library example_request \<in> set (LEGACY_HOSTS example_settings)"
    by (simp add: example_library_def example_request_def example_settings_def META_get_def)
  have p2: "get_host example_library ?other \<notin> set (LEGACY_HOSTS example_settings)"
    by (simp add: example_library_def example_request_def example_settings_def META_get_def)
  have t: "urljoin example_library (SITE_URL example_settings)
             (get_full_path example_library example_request)
           = ''https://developer.mozilla.org/en-US/docs/''"
    by (simp add: example_library_def example_request_def example_settings_def)
  from T1 [THEN conjunct1, THEN mp, OF p1] T2 [THEN conjunct2, THEN conjunct1, THEN mp, OF p2]
  show ?thesis by (simp add: t)
qed

subsection \<open>RestrictedEndpointsMiddleware\<close>

text \<open>
  C8. \<^verbatim>\<open>RestrictedEndpointsMiddleware.process_request\<close> sets \<^verbatim>\<open>request.urlconf\<close> to
  \<^verbatim>\<open>'kuma.urls_untrusted'\<close> when \<^verbatim>\<open>settings.ENABLE_RESTRICTIONS_BY_HOST\<close> holds and
  \<^verbatim>\<open>is_untrusted(request)\<close> is true, and only then; otherwise the request is unchanged.
  In both cases every other attribute of the request keeps its value.
\<close>

theorem RestrictedEndpointsMiddleware_urlconf_only:
  fixes km st request
  defines "out \<equiv> RestrictedEndpointsMiddleware_process_request km st request"
  shows "(ENABLE_RESTRICTIONS_BY_HOST st \<and> is_untrusted km request \<longrightarrow>
            out = request\<lparr>urlconf := Some ''kuma.urls_untrusted''\<rparr>)
    \<and> (\<not> (ENABLE_RESTRICTIONS_BY_HOST st \<and> is_untrusted km request) \<longrightarrow> out = request)
    \<and> (urlconf out \<noteq> urlconf request \<longrightarrow>
          ENABLE_RESTRICTIONS_BY_HOST st \<and> is_untrusted km request
          \<and> urlconf out = Some ''kuma.urls_untrusted'')
    \<and> path out = path request \<and> path_info out = path_info request
    \<and> GET out = GET request \<and> META out = META request
    \<and> request_LANGUAGE_CODE out = request_LANGUAGE_CODE request
    \<and> request.more out = request.more request"
  unfolding out_def
  by (simp add: RestrictedEndpointsMiddleware_process_request_def)

theorem RestrictedEndpointsMiddleware_urlconf_only_witness:
  "urlconf (RestrictedEndpointsMiddleware_process_request example_kuma example_settings
      (example_request\<lparr>META := [''HTTP_HOST'' \<mapsto> ''untrusted.example'']\<rparr>))
     = Some ''kuma.urls_untrusted''
   \<and> RestrictedEndpointsMiddleware_process_request example_kuma example_settings example_request
     = example_request
   \<and> RestrictedEndpointsMiddleware_process_request example_kuma
        (example_settings\<lparr>ENABLE_RESTRICTIONS_BY_HOST := False\<rparr>)
        (example_request\<lparr>META := [''HTTP_HOST'' \<mapsto> ''untrusted.example'']\<rparr>)
     = example_request\<lparr>META := [''HTTP_HOST'' \<mapsto> ''untrusted.example'']\<rparr>"
proof -
  let ?u = "example_request\<lparr>META := [''HTTP_HOST'' \<mapsto> ''untrusted.example'']\<rparr>"
  let ?off = "example_settings\<lparr>ENABLE_RESTRICTIONS_BY_HOST := False\<rparr>"
  note T1 = RestrictedEndpointsMiddleware_urlconf_only
    [where st = example_settings and km = example_kuma and request = ?u]
  note T2 = RestrictedEndpointsMiddleware_urlconf_only
    [where st = example_settings and km = example_kuma and request = example_request]
  note T3 = RestrictedEndpointsMiddleware_urlconf_only
    [where st = ?off and km = example_kuma and request = ?u]
  have p1: "ENABLE_RESTRICTIONS_BY_HOST example_settings \<and> is_untrusted example_kuma ?u"
    by (simp add: example_settings_def example_kuma_def example_request_def META_get_def)
  have p2: "\<not> (ENABLE_RESTRICTIONS_BY_HOST example_settings \<and> is_untrusted example_kuma example_request)"
    by (simp add: example_settings_def example_kuma_def example_request_def META_get_def)
  have p3: "\<not> (ENABLE_RESTRICTIONS_BY_HOST ?off \<and> is_untrusted example_kuma ?u)"
    by simp
  from T1 [THEN conjunct1, THEN mp, OF p1] T2 [THEN conjunct2, THEN conjunct1, THEN mp, OF p2]
       T3 [THEN conjunct2, THEN conjunct1, THEN mp, OF p3]
  show ?thesis by simp
qed

subsection \<open>GZipMiddleware\<close>

text \<open>
  C9. If the response given to \<^verbatim>\<open>GZipMiddleware.process_response\<close> has an ETag header and
  the response it returns has one, the returned ETag value is the original one,
  whatever Django's own middleware did to the header.
\<close>

theorem GZipMiddleware_keeps_etag:
  fixes lib request response
  defines "out \<equiv> GZipMiddleware_process_response lib request response"
  assumes "has_header response ''ETag''" and "has_header out ''ETag''"
  shows "get_header out ''ETag'' = get_header response ''ETag''"
  using assms
  by (auto simp: GZipMiddleware_process_response_def has_header_def get_header_def set_header_def
        lower_names Let_def split: option.splits if_splits)

theorem GZipMiddleware_keeps_etag_witness:
  "has_header example_response ''ETag''
   \<and> get_header (super_process_response example_library example_request example_response) ''ETag''
       = Some ''W/x''
   \<and> get_header (GZipMiddleware_process_response example_library example_request example_response)
        ''ETag'' = Some ''abc''"
proof -
  have p1: "has_header example_response ''ETag''"
    by (simp add: example_response_def has_header_def lower_names)
  have p2: "has_header (GZipMiddleware_process_response example_library example_request example_response) ''ETag''"
    by (simp add: GZipMiddleware_process_response_def example_library_def example_response_def
          has_header_def get_header_def set_header_def lower_names)
  have s: "get_header (super_process_response example_library example_request example_response) ''ETag''
       = Some ''W/x''"
    by (simp add: example_library_def example_response_def get_header_def set_header_def lower_names)
  have e: "get_header example_response ''ETag'' = Some ''abc''"
    by (simp add: example_response_def get_header_def lower_names)
  from GZipMiddleware_keeps_etag [OF p1 p2] p1 s e show ?thesis by simp
qed

subsection \<open>LocaleURLMiddleware\<close>

lemma QueryDict_get_None: "QueryDict_get q k = None \<longleftrightarrow> k \<notin> fst ` set q"
proof -
  have "QueryDict_get q k = None \<longleftrightarrow> filter (\<lambda>kv. fst kv = k) q = []"
    by (cases "rev (filter (\<lambda>kv. fst kv = k) q)") (simp_all add: QueryDict_get_def)
  also have "\<dots> \<longleftrightarrow> k \<notin> fst ` set q"
    by (auto simp: filter_empty_conv)
  finally show ?thesis .
qed

lemma map_of_concat_keys:
  assumes "distinct ks"
  shows "map_of (concat (map (\<lambda>k. case f k of None \<Rightarrow> [] | Some v \<Rightarrow> [(k, v)]) ks)) k
           = (if k \<in> set ks then f k else None)"
  using assms
proof (induction ks)
  case Nil
  show ?case by simp
next
  case (Cons a ks)
  then show ?case
    by (cases "f a") (auto simp: map_add_def split: option.splits)
qed

lemma map_of_iteritems: "map_of (QueryDict_iteritems q) k = QueryDict_get q k"
proof -
  have "map_of (QueryDict_iteritems q) k
          = (if k \<in> set (remdups (map fst q)) then QueryDict_get q k else None)"
    unfolding QueryDict_iteritems_def by (rule map_of_concat_keys) simp
  also have "\<dots> = QueryDict_get q k"
    using QueryDict_get_None [of q k] by auto
  finally show ?thesis .
qed

lemma distinct_concat_keys:
  "distinct ks \<Longrightarrow>
     distinct (map fst (concat (map (\<lambda>k. case f k of None \<Rightarrow> [] | Some v \<Rightarrow> [(k, v)]) ks)))"
proof (induction ks)
  case Nil
  show ?case by simp
next
  case (Cons a ks)
  have "fst ` set (concat (map (\<lambda>k. case f k of None \<Rightarrow> [] | Some v \<Rightarrow> [(k, v)]) ks)) \<subseteq> set ks"
    by (auto split: option.splits)
  with Cons show ?case
    by (cases "f a") auto
qed

lemma distinct_iteritems: "distinct (map fst (QueryDict_iteritems q))"
  unfolding QueryDict_iteritems_def by (rule distinct_concat_keys) simp

lemma map_of_rev_distinct:
  assumes "distinct (map fst xs)"
  shows "map_of (rev xs) = map_of xs"
proof -
  have "distinct (map fst (rev xs))"
    using assms by (simp add: rev_map [symmetric])
  then show ?thesis
    using assms by (simp add: map_of_inject_set)
qed

lemma map_of_filter_key:
  "map_of (filter (\<lambda>kv. fst kv \<noteq> a) xs) k = (if k = a then None else map_of xs k)"
  by (induction xs) auto

lemma query_without_lang:
  "dict (map (\<lambda>kv. (smart_str (fst kv), snd kv))
          (filter (\<lambda>kv. fst kv \<noteq> ''lang'') (QueryDict_iteritems q))) k
     = (if k = ''lang'' then None else QueryDict_get q k)"
proof -
  let ?xs = "filter (\<lambda>kv. fst kv \<noteq> ''lang'') (QueryDict_iteritems q)"
  have m: "map (\<lambda>kv. (smart_str (fst kv), snd kv)) ?xs = ?xs"
    by (simp add: smart_str_def)
  have "distinct (map fst ?xs)"
    using distinct_iteritems [of q] by (rule distinct_map_filter)
  then have "map_of (rev ?xs) = map_of ?xs"
    by (rule map_of_rev_distinct)
  then show ?thesis
    unfolding dict_def m by (simp add: map_of_filter_key map_of_iteritems)
qed

lemma in_LANGUAGES_iff:
  "in_LANGUAGES st lang \<longleftrightarrow> (\<exists>l. lang = Some l \<and> l \<in> fst ` set (LANGUAGES st))"
  by (cases lang) (simp_all add: in_LANGUAGES_def)

lemma get_header_Location_Vary:
  "get_header (set_header r ''Vary'' v) ''Location'' = get_header r ''Location''"
  by (simp add: get_header_def set_header_def lower_def lower_char_def)

text \<open>
  C7. When the \<^verbatim>\<open>lang\<close> query parameter of the request is one of \<^verbatim>\<open>settings.LANGUAGES\<close>,
  \<^verbatim>\<open>LocaleURLMiddleware.process_request\<close> returns a temporary redirect (status 302, not
  301) to \<^verbatim>\<open>urlparams\<close> of the path fixed with a blank locale and of a query dictionary
  that has no \<^verbatim>\<open>lang\<close> key and agrees with the request's query parameters on every
  other key. When \<^verbatim>\<open>lang\<close> is absent or not a configured language, the result does not
  depend on \<^verbatim>\<open>urlparams\<close>: it is the redirect to the quoted full path with the
  original query string, or no response at all.
\<close>

theorem LocaleURLMiddleware_lang_redirect:
  fixes lib km st th request
  defines "out \<equiv> fst (LocaleURLMiddleware_process_request lib km st th request)"
    and "p \<equiv> new_Prefixer km request"
    and "lang \<equiv> QueryDict_get (GET request) ''lang''"
    and "qs \<equiv> META_get request ''QUERY_STRING'' []"
  shows
   "((\<exists>l. lang = Some l \<and> l \<in> fst ` set (LANGUAGES st)) \<longrightarrow>
       (\<exists>query. out = Some (HttpResponseRedirect
                    (urlparams km (prefixer_fix km (p\<lparr>prefixer_locale := []\<rparr>) (shortened_path p)) query))
           \<and> query ''lang'' = None
           \<and> (\<forall>k. k \<noteq> ''lang'' \<longrightarrow> query k = QueryDict_get (GET request) k))
       \<and> (\<forall>r. out = Some r \<longrightarrow>
             status_code r = 302 \<and> status_code r \<noteq> 301
             \<and> response_class r = HttpResponseRedirect_class))
    \<and> (\<not> (\<exists>l. lang = Some l \<and> l \<in> fst ` set (LANGUAGES st)) \<longrightarrow>
         (if prefixer_fix km p (shortened_path p) \<noteq> path request
          then \<exists>r. out = Some r
                 \<and> get_header r ''Location''
                     = Some (urllib_quote lib (prefixer_fix km p (shortened_path p))
                             @ (if qs = [] then [] else ''?'' @ qs))
          else out = None)
         \<and> (\<forall>f. LocaleURLMiddleware_process_request lib (km\<lparr>urlparams := f\<rparr>) st th request
                 = LocaleURLMiddleware_process_request lib km st th request))"
proof -
  let ?L = "\<exists>l. lang = Some l \<and> l \<in> fst ` set (LANGUAGES st)"
  let ?query = "dict (map (\<lambda>kv. (smart_str (fst kv), snd kv))
                  (filter (\<lambda>kv. fst kv \<noteq> ''lang'') (QueryDict_iteritems (GET request))))"
  have L: "in_LANGUAGES st (QueryDict_get (GET request) ''lang'') \<longleftrightarrow> ?L"
    unfolding lang_def by (rule in_LANGUAGES_iff)
  have A: "?L \<longrightarrow> out = Some (HttpResponseRedirect
                    (urlparams km (prefixer_fix km (p\<lparr>prefixer_locale := []\<rparr>) (shortened_path p)) ?query))"
    unfolding L [symmetric] out_def p_def
    by (simp add: LocaleURLMiddleware_process_request_def Let_def)
  have Q: "?query ''lang'' = None \<and> (\<forall>k. k \<noteq> ''lang'' \<longrightarrow> ?query k = QueryDict_get (GET request) k)"
    by (simp add: query_without_lang)
  have B: "?L \<longrightarrow> (\<forall>r. out = Some r \<longrightarrow>
             status_code r = 302 \<and> status_code r \<noteq> 301
             \<and> response_class r = HttpResponseRedirect_class)"
    using A by (auto simp: redirect_status)
  have C: "\<not> ?L \<longrightarrow>
         (if prefixer_fix km p (shortened_path p) \<noteq> path request
          then \<exists>r. out = Some r
                 \<and> get_header r ''Location''
                     = Some (urllib_quote lib (prefixer_fix km p (shortened_path p))
                             @ (if qs = [] then [] else ''?'' @ qs))
          else out = None)"
    unfolding L [symmetric] out_def p_def qs_def
    by (simp add: LocaleURLMiddleware_process_request_def Let_def redirect_status
          get_header_Location_Vary)
  have D: "\<not> ?L \<longrightarrow> (\<forall>f. LocaleURLMiddleware_process_request lib (km\<lparr>urlparams := f\<rparr>) st th request
                 = LocaleURLMiddleware_process_request lib km st th request)"
    unfolding L [symmetric]
    by (simp add: LocaleURLMiddleware_process_request_def Let_def)
  from A Q B C D show ?thesis by blast
qed

theorem LocaleURLMiddleware_lang_redirect_witness:
  "fst (LocaleURLMiddleware_process_request example_library example_kuma example_settings
          example_thread example_request)
     = Some (HttpResponseRedirect ''/docs/?q=a b'')
   \<and> fst (LocaleURLMiddleware_process_request example_library example_kuma example_settings
          example_thread (example_request\<lparr>GET := [(''lang'', ''xx'')]\<rparr>)) = None"
proof -
  let ?other = "example_request\<lparr>GET := [(''lang'', ''xx'')]\<rparr>"
  note T1 = LocaleURLMiddleware_lang_redirect
    [where lib = example_library and km = example_kuma and st = example_settings
       and th = example_thread and request = example_request]
  note T2 = LocaleURLMiddleware_lang_redirect
    [where lib = example_library and km = example_kuma and st = example_settings
       and th = example_thread and request = ?other]
  have p1: "\<exists>l. QueryDict_get (GET example_request) ''lang'' = Some l
              \<and> l \<in> fst ` set (LANGUAGES example_settings)"
    by (simp add: QueryDict_get_def example_request_def example_settings_def)
  have p2: "\<not> (\<exists>l. QueryDict_get (GET ?other) ''lang'' = Some l
              \<and> l \<in> fst ` set (LANGUAGES example_settings))"
    by (simp add: QueryDict_get_def example_settings_def)
  have q: "QueryDict_get (GET example_request) ''q'' = Some ''a b''"
    by (simp add: QueryDict_get_def example_request_def)
  have f: "prefixer_fix example_kuma ((new_Prefixer example_kuma example_request)\<lparr>prefixer_locale := []\<rparr>)
             (shortened_path (new_Prefixer example_kuma example_request)) = ''/docs/''"
    by (simp add: example_kuma_def example_request_def)
  have u: "\<And>url query. urlparams example_kuma url query
             = url @ (case query ''q'' of None \<Rightarrow> [] | Some v \<Rightarrow> ''?q='' @ v)"
    by (simp add: example_kuma_def)
  have g: "prefixer_fix example_kuma (new_Prefixer example_kuma ?other)
             (shortened_path (new_Prefixer example_kuma ?other)) = path ?other"
    by (simp add: example_kuma_def example_request_def)
  from T1 [THEN conjunct1, THEN mp, OF p1, THEN conjunct1]
  obtain query where
    o: "fst (LocaleURLMiddleware_process_request example_library example_kuma example_settings
          example_thread example_request)
        = Some (HttpResponseRedirect (urlparams example_kuma ''/docs/'' query))"
    and k: "\<forall>k. k \<noteq> ''lang'' \<longrightarrow> query k = QueryDict_get (GET example_request) k"
    unfolding f by blast
  from k q have "query ''q'' = Some ''a b''" by simp
  with o have 1: "fst (LocaleURLMiddleware_process_request example_library example_kuma example_settings
          example_thread example_request) = Some (HttpResponseRedirect ''/docs/?q=a b'')"
    by (simp add: u)
  from T2 [THEN conjunct2, THEN mp, OF p2, THEN conjunct1]
  have 2: "fst (LocaleURLMiddleware_process_request example_library example_kuma example_settings
          example_thread ?other) = None"
    by (simp add: g)
  from 1 2 show ?thesis by simp
qed

end
